theory Spec2Isabelle
  imports Complex_Main
begin

section \<open>Go strings: the library functions the import code calls\<close>

text \<open>
  A Go string is a sequence of bytes, here a \<^typ>\<open>string\<close>. The functions of package
  \<^verbatim>\<open>strings\<close> that the import code calls are modelled on bytes: white space is the
  ASCII white space of \<^verbatim>\<open>unicode.IsSpace\<close>, case mapping is the ASCII one, and a byte
  above 0x7F is an ordinary character. On ASCII text this is what Go computes. On other
  text Go decodes UTF-8, and knows more white space and more letters with two cases; where
  the truth of a statement for the code rests on this, the statement is made for ASCII
  text, by a hypothesis.
\<close>

definition isSpace :: "char \<Rightarrow> bool" where
  \<comment> \<open>\<^verbatim>\<open>unicode.IsSpace\<close> on ASCII: tab, line feed, vertical tab, form feed, carriage return, space\<close>
  "isSpace c = (c \<in> set [CHR 0x09, CHR 0x0A, CHR 0x0B, CHR 0x0C, CHR 0x0D, CHR '' ''])"

definition reSpace :: "char \<Rightarrow> bool" where
  \<comment> \<open>the class \<^verbatim>\<open>\s\<close> of Go regular expressions: no vertical tab\<close>
  "reSpace c = (c \<in> set [CHR 0x09, CHR 0x0A, CHR 0x0C, CHR 0x0D, CHR '' ''])"

definition isDigit :: "char \<Rightarrow> bool" where
  \<comment> \<open>the class \<^verbatim>\<open>\d\<close>, and the test \<^verbatim>\<open>r >= '0' && r <= '9'\<close>\<close>
  "isDigit c = (c \<in> set ''0123456789'')"

definition toLowerChar :: "char \<Rightarrow> char" where
  \<comment> \<open>\<^verbatim>\<open>unicode.ToLower\<close> on ASCII: the letters A to Z have a lower case\<close>
  "toLowerChar c =
     (case map_of (zip ''ABCDEFGHIJKLMNOPQRSTUVWXYZ'' ''abcdefghijklmnopqrstuvwxyz'') c of
        Some d \<Rightarrow> d | None \<Rightarrow> c)"

definition toUpperChar :: "char \<Rightarrow> char" where
  \<comment> \<open>\<^verbatim>\<open>unicode.ToUpper\<close> on ASCII\<close>
  "toUpperChar c =
     (case map_of (zip ''abcdefghijklmnopqrstuvwxyz'' ''ABCDEFGHIJKLMNOPQRSTUVWXYZ'') c of
        Some d \<Rightarrow> d | None \<Rightarrow> c)"

definition toLower :: "string \<Rightarrow> string" where
  "toLower s = map toLowerChar s"

definition toUpper :: "string \<Rightarrow> string" where
  "toUpper s = map toUpperChar s"

definition trimSpace :: "string \<Rightarrow> string" where
  "trimSpace s = rev (dropWhile isSpace (rev (dropWhile isSpace s)))"

definition trimCutset :: "string \<Rightarrow> string \<Rightarrow> string" where
  \<comment> \<open>\<^verbatim>\<open>strings.Trim(s, cutset)\<close>\<close>
  "trimCutset s cutset =
     rev (dropWhile (\<lambda>c. c \<in> set cutset) (rev (dropWhile (\<lambda>c. c \<in> set cutset) s)))"

fun hasPrefix :: "string \<Rightarrow> string \<Rightarrow> bool" where
  \<comment> \<open>\<^verbatim>\<open>strings.HasPrefix(s, p)\<close>\<close>
  "hasPrefix s [] = True"
| "hasPrefix [] (p # ps) = False"
| "hasPrefix (c # cs) (p # ps) = (c = p \<and> hasPrefix cs ps)"

definition trimSuffix :: "string \<Rightarrow> string \<Rightarrow> string" where
  "trimSuffix s suf =
     (if hasPrefix (rev s) (rev suf) then take (length s - length suf) s else s)"

fun contains :: "string \<Rightarrow> string \<Rightarrow> bool" where
  \<comment> \<open>\<^verbatim>\<open>strings.Contains(s, sub)\<close>\<close>
  "contains [] sub = (sub = [])"
| "contains (c # cs) sub = (hasPrefix (c # cs) sub \<or> contains cs sub)"

fun indexOf :: "string \<Rightarrow> string \<Rightarrow> nat option" where
  \<comment> \<open>\<^verbatim>\<open>strings.Index(s, sub)\<close>, with \<open>None\<close> for -1\<close>
  "indexOf [] sub = (if sub = [] then Some 0 else None)"
| "indexOf (c # cs) sub =
     (if hasPrefix (c # cs) sub then Some 0 else map_option Suc (indexOf cs sub))"

fun Fields :: "string \<Rightarrow> string list" where
  \<comment> \<open>\<^verbatim>\<open>strings.Fields\<close>: the maximal runs of characters that are not white space; a
      character that is not white space starts a word of its own before white space or at
      the end, and else joins the word that follows\<close>
  "Fields [] = []"
| "Fields (c # cs) =
     (if isSpace c then Fields cs
      else (case Fields cs of
              [] \<Rightarrow> [[c]]
            | w # ws \<Rightarrow> if cs \<noteq> [] \<and> \<not> isSpace (hd cs) then (c # w) # ws else [c] # w # ws))"

fun join :: "string list \<Rightarrow> string \<Rightarrow> string" where
  \<comment> \<open>\<^verbatim>\<open>strings.Join(elems, sep)\<close>\<close>
  "join [] sep = []"
| "join [w] sep = w"
| "join (w # v # ws) sep = w @ sep @ join (v # ws) sep"

fun splitOn :: "char \<Rightarrow> string \<Rightarrow> string list" where
  \<comment> \<open>\<^verbatim>\<open>strings.Split(s, sep)\<close> for a separator of one character\<close>
  "splitOn sep [] = [[]]"
| "splitOn sep (c # cs) =
     (case splitOn sep cs of
        [] \<Rightarrow> (if c = sep then [[], []] else [[c]])
      | w # ws \<Rightarrow> if c = sep then [] # w # ws else (c # w) # ws)"

function replaceAll :: "string \<Rightarrow> string \<Rightarrow> string \<Rightarrow> string" where
  \<comment> \<open>\<^verbatim>\<open>strings.ReplaceAll(s, old, new)\<close>: the occurrences of \<open>old\<close> from the left, not
      overlapping; an empty \<open>old\<close> matches before every character and at the end\<close>
  "replaceAll [] old new = (if old = [] then new else [])"
| "replaceAll (c # cs) old new =
     (if old = [] then new @ c # replaceAll cs old new
      else if hasPrefix (c # cs) old
           then new @ replaceAll (drop (length old) (c # cs)) old new
      else c # replaceAll cs old new)"
  by pat_completeness auto
termination
  by (relation "measure (\<lambda>(s, old, new). length s)") (auto simp: neq_Nil_conv)

subsection \<open>Regular expressions\<close>

text \<open>
  Every regular expression of the import code is written as a matcher: a function that,
  given the text from some position on, returns \<open>None\<close> when the expression does not
  match at that position, and otherwise what the match is replaced with together with the
  text after the match. Go matches leftmost-first with greedy repetition; in each expression
  below a greedy repetition is followed by a character outside the repeated class, so the
  longest repetition is the only one that can match.
\<close>

function replaceAllRe :: "(string \<Rightarrow> (string \<times> string) option) \<Rightarrow> string \<Rightarrow> string" where
  \<comment> \<open>\<^verbatim>\<open>re.ReplaceAllString\<close>: scan from the left; at a match emit the replacement and go on
      after it, else keep the character. No expression here matches the empty string.\<close>
  "replaceAllRe m [] = []"
| "replaceAllRe m (c # cs) =
     (case m (c # cs) of
        None \<Rightarrow> c # replaceAllRe m cs
      | Some (r, rest) \<Rightarrow>
          if length rest \<le> length cs then r @ replaceAllRe m rest
          else c # replaceAllRe m cs)"
  by pat_completeness auto
termination
  by (relation "measure (\<lambda>(m, s). length s)") auto

fun findRe :: "(string \<Rightarrow> (string \<times> string) option) \<Rightarrow> string \<Rightarrow> string option" where
  \<comment> \<open>the leftmost match, as \<^verbatim>\<open>re.FindStringSubmatch\<close> finds it; the matcher's first
      component is then the captured group\<close>
  "findRe m [] = None"
| "findRe m (c # cs) = (case m (c # cs) of Some (g, rest) \<Rightarrow> Some g | None \<Rightarrow> findRe m cs)"

definition reParenGroup :: "string \<Rightarrow> string option" where
  \<comment> \<open>\<^verbatim>\<open>\s*\([^)]*\)\<close>: the text after the closing parenthesis\<close>
  "reParenGroup s =
     (case dropWhile reSpace s of
        [] \<Rightarrow> None
      | c # t \<Rightarrow>
          if c = CHR ''('' then
            (case dropWhile (\<lambda>x. x \<noteq> CHR '')'') t of [] \<Rightarrow> None | _ # u \<Rightarrow> Some u)
          else None)"

definition reParens :: "string \<Rightarrow> (string \<times> string) option" where
  \<comment> \<open>\<^verbatim>\<open>\s*\([^)]*\)\s*\<close> replaced by one space\<close>
  "reParens s = map_option (\<lambda>u. ('' '', dropWhile reSpace u)) (reParenGroup s)"

definition reParensLeft :: "string \<Rightarrow> (string \<times> string) option" where
  \<comment> \<open>\<^verbatim>\<open>\s*\([^)]*\)\<close> replaced by nothing\<close>
  "reParensLeft s = map_option (\<lambda>u. ([], u)) (reParenGroup s)"

definition reInchDecimalGroup :: "string \<Rightarrow> (string \<times> string) option" where
  \<comment> \<open>\<^verbatim>\<open>(\d+)\.\d+\s*"\<close>: group 1 and the text after the inch mark\<close>
  "reInchDecimalGroup s =
     (let d1 = takeWhile isDigit s in
      if d1 = [] then None
      else (case dropWhile isDigit s of
              [] \<Rightarrow> None
            | c # r \<Rightarrow>
                if c = CHR ''.'' \<and> takeWhile isDigit r \<noteq> [] then
                  (case dropWhile reSpace (dropWhile isDigit r) of
                     [] \<Rightarrow> None
                   | q # u \<Rightarrow> if q = CHR 0x22 then Some (d1, u) else None)
                else None))"

definition reInchDecimal :: "string \<Rightarrow> (string \<times> string) option" where
  \<comment> \<open>replaced by \<^verbatim>\<open>$1"\<close>, in \<^verbatim>\<open>normalizeBaseKey\<close>\<close>
  "reInchDecimal s = map_option (\<lambda>(d1, u). (d1 @ [CHR 0x22], u)) (reInchDecimalGroup s)"

definition reInchSpace :: "string \<Rightarrow> (string \<times> string) option" where
  \<comment> \<open>\<^verbatim>\<open>(\d+)\s+"\<close> replaced by \<^verbatim>\<open>$1"\<close>\<close>
  "reInchSpace s =
     (let d1 = takeWhile isDigit s; r = dropWhile isDigit s in
      if d1 = [] \<or> takeWhile reSpace r = [] then None
      else (case dropWhile reSpace r of
              [] \<Rightarrow> None
            | q # u \<Rightarrow> if q = CHR 0x22 then Some (d1 @ [CHR 0x22], u) else None))"

definition unitPrefix :: "string list \<Rightarrow> string \<Rightarrow> (string \<times> string) option" where
  \<comment> \<open>an alternation of literals such as \<^verbatim>\<open>(GB|TB|MHz|mm)\<close>: the first alternative that is
      a prefix of the text, and the text after it\<close>
  "unitPrefix units s =
     (case filter (hasPrefix s) units of
        [] \<Rightarrow> None
      | u # _ \<Rightarrow> Some (u, drop (length u) s))"

definition reUnit :: "string \<Rightarrow> (string \<times> string) option" where
  \<comment> \<open>\<^verbatim>\<open>(\d+)(GB|TB|MHz|mm)\<close> replaced by \<^verbatim>\<open>$1 $2\<close>\<close>
  "reUnit s =
     (let d1 = takeWhile isDigit s in
      if d1 = [] then None
      else (case unitPrefix [''GB'', ''TB'', ''MHz'', ''mm''] (dropWhile isDigit s) of
              None \<Rightarrow> None
            | Some (u, rest) \<Rightarrow> Some (d1 @ '' '' @ u, rest)))"

definition reSlash :: "string \<Rightarrow> (string \<times> string) option" where
  \<comment> \<open>\<^verbatim>\<open>(\d+)/(\d+)\s*(GB|TB)\<close> replaced by \<^verbatim>\<open>$1/$2 $3\<close>\<close>
  "reSlash s =
     (let d1 = takeWhile isDigit s in
      if d1 = [] then None
      else (case dropWhile isDigit s of
              [] \<Rightarrow> None
            | c # r \<Rightarrow>
                let d2 = takeWhile isDigit r in
                if c = CHR ''/'' \<and> d2 \<noteq> [] then
                  (case unitPrefix [''GB'', ''TB''] (dropWhile reSpace (dropWhile isDigit r)) of
                     None \<Rightarrow> None
                   | Some (u, rest) \<Rightarrow> Some (d1 @ ''/'' @ d2 @ '' '' @ u, rest))
                else None))"


section \<open>The name normalizer and its helpers\<close>

definition isSectionTitle :: "string \<Rightarrow> bool" where
  "isSectionTitle s =
     (let t = trimSpace (toUpper s) in
      if t = [] then False else \<not> list_ex isDigit t)"

definition colors :: "string list" where
  \<comment> \<open>the vocabulary of \<^verbatim>\<open>removeColorFromName\<close>; the bytes 0xC3 0xBA are the letter u with
      an acute accent\<close>
  "colors =
     [''negro'', ''black'', ''blanco'', ''white'', ''azul'', ''blue'', ''rosa'', ''pink'',
      ''amarillo'', ''yellow'', ''verde'', ''green'', ''silver'', ''starlight'', ''midnight'',
      ''purple'', ''p'' @ [CHR 0xC3, CHR 0xBA] @ ''rpura'', ''morado'', ''space'', ''gray'',
      ''grey'', ''gris'', ''oro'', ''gold'',
      ''red'', ''rojo'', ''orange'', ''naranja'', ''coral'', ''arena'', ''sand'', ''cosmic'',
      ''deep'', ''pearl'', ''perlado'', ''oscuro'', ''dark'', ''light'', ''claro'']"

definition removeColorFromName :: "string \<Rightarrow> string" where
  "removeColorFromName s0 =
     (let s = trimSpace (replaceAllRe reParens s0);
          parts = Fields s;
          n = length parts
      in if n = 0 then s
         else
           let lastw = toLower (parts ! (n - 1)) in
           if list_ex (\<lambda>c. lastw = c \<or> contains lastw c) colors
           then trimSpace (join (take (n - 1) parts) '' '')
           else if 2 \<le> n \<and>
                   list_ex (contains (toLower (parts ! (n - 2) @ '' '' @ parts ! (n - 1)))) colors
           then trimSpace (join (take (n - 2) parts) '' '')
           else s)"

definition inferColors :: "string list" where
  "inferColors =
     [''Negro'', ''Black'', ''Blanco'', ''White'', ''Azul'', ''Blue'', ''Rosa'', ''Pink'',
      ''Amarillo'', ''Yellow'', ''Verde'', ''Green'', ''Silver'', ''Starlight'', ''Midnight'',
      ''Purple'', ''Space Gray'', ''Space Black'', ''Natural'', ''Sage Green'', ''Mist Blue'',
      ''Lavender'']"

definition inferColorFromName :: "string \<Rightarrow> string" where
  "inferColorFromName s =
     (case filter (\<lambda>c. contains (toLower s) (toLower c)) inferColors of
        [] \<Rightarrow> []
      | c # _ \<Rightarrow> c)"

definition normalizeBaseKey :: "string \<Rightarrow> string" where
  "normalizeBaseKey s0 =
     (let s = trimSpace s0;
          s = replaceAll s [CHR 0x09] '' '';
          s = replaceAllRe reInchDecimal s;
          s = replaceAllRe reInchSpace s;
          s = replaceAll s [CHR 0x27] [CHR 0x22];
          s = replaceAllRe reParens s;
          s = join (Fields s) '' '';
          s = replaceAllRe reUnit s;
          s = replaceAllRe reSlash s;
          s = replaceAll s ''Wifi'' ''WiFi'';
          s = replaceAll s ''wifi'' ''WiFi'';
          s = replaceAll s ''wi-fi'' ''WiFi'';
          s = replaceAll s ''  '' '' '';
          s = join (Fields s) '' ''
      in s)"

definition slugify :: "string \<Rightarrow> string" where
  "slugify s = toLower (replaceAll (trimSpace s) '' '' ''-'')"

definition inferBrandModel :: "string \<Rightarrow> string \<times> string" where
  "inferBrandModel s =
     (case Fields s of
        [] \<Rightarrow> ([], [])
      | b # rest \<Rightarrow> (b, trimSpace (join rest '' '')))"

definition mapStock :: "string \<Rightarrow> int" where
  "mapStock s0 =
     (let s = trimSpace (toLower s0) in
      if s = [] then 0
      else if contains s ''sin'' then 0
      else if contains s ''bajo'' then 2
      else 10)"


definition detectUnmatchReason :: "string \<Rightarrow> string \<Rightarrow> string" where
  "detectUnmatchReason baseKey pricesText =
     (let baseKeyLower = toLower baseKey;
          pricesTextLower = toLower pricesText
      in if \<not> contains pricesTextLower baseKeyLower then
           (case Fields baseKey of
              p0 # p1 # _ \<Rightarrow>
                if contains pricesTextLower (toLower (p0 @ '' '' @ p1))
                then ''formato_diferente'' else ''no_encontrado''
            | _ \<Rightarrow> ''no_encontrado'')
         else
           (case indexOf pricesTextLower baseKeyLower of
              Some idx \<Rightarrow>
                if contains (take 150 (drop idx pricesTextLower)) ''sin stock''
                then ''sin_stock'' else ''precio_invalido''
            | None \<Rightarrow> ''precio_invalido''))"

section \<open>The price list\<close>

text \<open>
  A USD amount is a \<^verbatim>\<open>float64\<close> in the source and a rational number here. The import
  code only compares amounts with zero and multiplies them; rounding is not modelled.
  \<^verbatim>\<open>strconv.ParseFloat\<close> is a parameter \<open>pf\<close> of the parser: the number it returns, its
  error being ignored by the caller. \<open>parseFloatDec\<close> is the instance used to run the model:
  the exact value of a decimal numeral, and 0 where \<^verbatim>\<open>ParseFloat\<close> reports a syntax error.
\<close>

type_synonym usd = rat
type_synonym priceMap = "string \<rightharpoonup> usd"

definition digitVal :: "char \<Rightarrow> rat" where
  "digitVal c = (case map_of (zip ''0123456789'' [0, 1, 2, 3, 4, 5, 6, 7, 8, 9]) c of
                   Some n \<Rightarrow> n | None \<Rightarrow> 0)"

definition intPart :: "string \<Rightarrow> rat" where
  \<comment> \<open>the value of the digits before the point\<close>
  "intPart ds = foldl (\<lambda>n c. 10 * n + digitVal c) 0 ds"

definition fracPart :: "string \<Rightarrow> rat" where
  \<comment> \<open>the value of the digits after the point\<close>
  "fracPart ds = foldr (\<lambda>c x. (digitVal c + x) / 10) ds 0"

definition parseFloatDec :: "string \<Rightarrow> usd" where
  "parseFloatDec s =
     (let ip = takeWhile isDigit s; r = dropWhile isDigit s in
      if r = [] then (if ip = [] then 0 else intPart ip)
      else if hd r = CHR ''.'' \<and> list_all isDigit (tl r) \<and> (ip \<noteq> [] \<or> tl r \<noteq> [])
      then intPart ip + fracPart (tl r)
      else 0)"

definition rePriceGroup :: "string \<Rightarrow> (string \<times> string) option" where
  \<comment> \<open>\<^verbatim>\<open>\$\s*([0-9][0-9.,]*)\<close>: group 1 and the text after the match\<close>
  "rePriceGroup s =
     (case s of
        [] \<Rightarrow> None
      | c # r \<Rightarrow>
          if c = CHR ''$'' then
            (case dropWhile reSpace r of
               [] \<Rightarrow> None
             | d # t \<Rightarrow>
                 if isDigit d
                 then Some (d # takeWhile (\<lambda>x. isDigit x \<or> x = CHR ''.'' \<or> x = CHR '','') t,
                            dropWhile (\<lambda>x. isDigit x \<or> x = CHR ''.'' \<or> x = CHR '','') t)
                 else None)
          else None)"

definition rePrice :: "string \<Rightarrow> (string \<times> string) option" where
  \<comment> \<open>the same expression, replaced by nothing\<close>
  "rePrice s = map_option (\<lambda>(g, u). ([], u)) (rePriceGroup s)"

definition skippedLine :: "string \<Rightarrow> bool" where
  \<comment> \<open>the two \<^verbatim>\<open>continue\<close> tests of the loop of \<^verbatim>\<open>parseUSDPrices\<close>, on the trimmed line\<close>
  "skippedLine l =
     (l = [] \<or> contains (toLower l) ''sin stock'' \<or> contains (toLower l) ''sin precio'')"

definition parseLine :: "(string \<Rightarrow> usd) \<Rightarrow> priceMap \<Rightarrow> string \<Rightarrow> priceMap" where
  \<comment> \<open>the body of the loop of \<^verbatim>\<open>parseUSDPrices\<close>\<close>
  "parseLine pf res line =
     (let l = trimSpace line in
      if skippedLine l then res
      else (case findRe rePriceGroup l of
              None \<Rightarrow> res
            | Some g \<Rightarrow>
                let usdStr = replaceAll g '','' [];
                    usd = pf usdStr;
                    name = trimSpace (replaceAllRe rePrice l);
                    name = trimCutset name [CHR ''-'', CHR '':'', CHR 0x09, CHR '' ''];
                    key = normalizeBaseKey name
                in if key \<noteq> [] \<and> 0 < usd then res(key \<mapsto> usd) else res))"

definition parseUSDPrices :: "(string \<Rightarrow> usd) \<Rightarrow> string \<Rightarrow> priceMap" where
  "parseUSDPrices pf text =
     (if trimSpace text = [] then Map.empty
      else foldl (parseLine pf) Map.empty (splitOn (CHR 0x0A) text))"

section \<open>The tiered matcher\<close>

definition reIpad :: "string \<Rightarrow> (string \<times> string) option" where
  \<comment> \<open>\<^verbatim>\<open>ipad\s+(\d+)\s+(a\d+)\<close> replaced by \<^verbatim>\<open>ipad $2 $1\<close>\<close>
  "reIpad s =
     (if hasPrefix s ''ipad'' then
        (let r = drop 4 s;
             r1 = dropWhile reSpace r;
             d1 = takeWhile isDigit r1;
             r2 = dropWhile isDigit r1;
             r3 = dropWhile reSpace r2
         in if takeWhile reSpace r = [] \<or> d1 = [] \<or> takeWhile reSpace r2 = [] then None
            else (case r3 of
                    [] \<Rightarrow> None
                  | a # r4 \<Rightarrow>
                      if a = CHR ''a'' \<and> takeWhile isDigit r4 \<noteq> []
                      then Some (''ipad '' @ a # takeWhile isDigit r4 @ '' '' @ d1,
                                 dropWhile isDigit r4)
                      else None))
      else None)"

definition reInchDecimalBare :: "string \<Rightarrow> (string \<times> string) option" where
  \<comment> \<open>\<^verbatim>\<open>(\d+)\.\d+\s*"\<close> replaced by \<^verbatim>\<open>$1\<close>, in the matcher\<close>
  "reInchDecimalBare s = reInchDecimalGroup s"

definition suffixes :: "string list" where
  "suffixes = ['' 5g ds'', '' 4g ds'', '' 5g'', '' 4g'', '' ds'', '' wifi'', '' wi-fi'', '' lte'']"

definition normalize_cmp :: "string \<Rightarrow> string" where
  \<comment> \<open>the closure \<^verbatim>\<open>normalize\<close> of \<^verbatim>\<open>matchUSDPrice\<close>; the bytes 0xC2 0xA0 are the
      no-break space\<close>
  "normalize_cmp s0 =
     (let s = toLower s0;
          s = replaceAllRe reParensLeft s;
          s = replaceAllRe reInchDecimalBare s;
          s = replaceAll s [CHR 0x22] [];
          s = foldl trimSuffix s suffixes;
          s = replaceAll s [CHR 0xC2, CHR 0xA0] '' '';
          s = replaceAll s ''+'' '' '';
          s = join (Fields s) '' '';
          s = replaceAllRe reIpad s
      in trimSpace s)"

text \<open>
  A Go map is a partial function here. Go leaves the order in which \<^verbatim>\<open>range\<close> visits a
  map unspecified, so each \<^verbatim>\<open>range\<close> loop takes the order of its visit as a list of keys;
  a key that is not in the map is passed over.
\<close>

fun rangeFirst :: "priceMap \<Rightarrow> (string \<Rightarrow> bool) \<Rightarrow> string list \<Rightarrow> usd option" where
  \<comment> \<open>\<^verbatim>\<open>for k, v := range m { if P(k) { return v } }\<close>\<close>
  "rangeFirst m P [] = None"
| "rangeFirst m P (k # ks) =
     (case m k of
        None \<Rightarrow> rangeFirst m P ks
      | Some v \<Rightarrow> if P k then Some v else rangeFirst m P ks)"

definition signature :: "string list \<Rightarrow> string" where
  \<comment> \<open>\<^verbatim>\<open>strings.Join(words[:min(3, len(words))], " ")\<close>\<close>
  "signature ws = join (take (min 3 (length ws)) ws) '' ''"

definition overlap :: "string list \<Rightarrow> string list \<Rightarrow> nat" where
  \<comment> \<open>the counter \<^verbatim>\<open>matches\<close>: how many of the first words of the candidate are among the
      first words of the query\<close>
  "overlap baseWords kWords =
     length (filter (\<lambda>w. w \<in> set (take (min 3 (length baseWords)) baseWords))
                    (take (min 3 (length kWords)) kWords))"

definition partialGuard :: "string list \<Rightarrow> string list \<Rightarrow> bool" where
  \<comment> \<open>\<^verbatim>\<open>matches >= 2 && len(keyPattern) > 8 && len(kPattern) > 8\<close>\<close>
  "partialGuard baseWords kWords =
     (2 \<le> overlap baseWords kWords \<and> 8 < length (signature baseWords)
      \<and> 8 < length (signature kWords))"

definition partialHit :: "string list \<Rightarrow> string \<Rightarrow> bool" where
  \<comment> \<open>the tests of the third loop on one key of the map\<close>
  "partialHit baseWords k =
     (let keyPattern = signature baseWords;
          kNorm = normalize_cmp k;
          kWords = Fields kNorm
      in (contains kNorm keyPattern \<or> contains keyPattern kNorm)
         \<and> 2 \<le> length kWords \<and> partialGuard baseWords kWords)"

definition exactTier :: "priceMap \<Rightarrow> string \<Rightarrow> usd option" where
  "exactTier m baseKey = m baseKey"

definition sameForm :: "string \<Rightarrow> string \<Rightarrow> bool" where
  \<comment> \<open>the test of the second loop on one key of the map\<close>
  "sameForm baseNorm k = (normalize_cmp k = baseNorm)"

definition normalizedTier :: "priceMap \<Rightarrow> string list \<Rightarrow> string \<Rightarrow> usd option" where
  "normalizedTier m ks baseKey = rangeFirst m (sameForm (normalize_cmp baseKey)) ks"

definition partialTier :: "priceMap \<Rightarrow> string list \<Rightarrow> string \<Rightarrow> usd option" where
  "partialTier m ks baseKey =
     (let baseWords = Fields (normalize_cmp baseKey) in
      if 2 \<le> length baseWords then rangeFirst m (partialHit baseWords) ks else None)"

definition matchUSDPrice :: "priceMap \<Rightarrow> string list \<Rightarrow> string list \<Rightarrow> string \<Rightarrow> usd" where
  \<comment> \<open>\<open>ks2\<close> and \<open>ks3\<close> are the orders of the second and of the third loop\<close>
  "matchUSDPrice m ks2 ks3 baseKey =
     (case exactTier m baseKey of
        Some v \<Rightarrow> v
      | None \<Rightarrow>
          (case normalizedTier m ks2 baseKey of
             Some v \<Rightarrow> v
           | None \<Rightarrow>
               (case partialTier m ks3 baseKey of
                  Some v \<Rightarrow> v
                | None \<Rightarrow> 0)))"

definition equalFold :: "string \<Rightarrow> string \<Rightarrow> bool" where
  \<comment> \<open>\<^verbatim>\<open>strings.EqualFold\<close> on ASCII text\<close>
  "equalFold a b = (toLower a = toLower b)"

definition lookupPrice :: "priceMap \<Rightarrow> string \<Rightarrow> usd" where
  \<comment> \<open>\<^verbatim>\<open>priceUSD[baseKey]\<close>: the zero value for a key that is not in the map\<close>
  "lookupPrice m k = (case m k of Some v \<Rightarrow> v | None \<Rightarrow> 0)"

definition rowPrice :: "priceMap \<Rightarrow> string list \<Rightarrow> string list \<Rightarrow> string \<Rightarrow> usd" where
  \<comment> \<open>the price of a spreadsheet row: the direct lookup, then the matcher\<close>
  "rowPrice m ks2 ks3 baseKey =
     (let usd = lookupPrice m baseKey in
      if usd \<le> 0 then
        (let alt = matchUSDPrice m ks2 ks3 baseKey in if 0 < alt then alt else usd)
      else usd)"

section \<open>The catalog store\<close>

text \<open>
  The store is the two tables the import reads and writes, as lists of rows in the order
  of their creation. A UUID is a natural number, \<^verbatim>\<open>uuid.Nil\<close> is 0 and \<^verbatim>\<open>uuid.New()\<close>
  returns the next number of a counter. \<^verbatim>\<open>Save\<close> writes the row with the primary key of
  its argument, or adds it; on table \<^verbatim>\<open>products\<close> the unique index on \<^verbatim>\<open>slug\<close> rejects
  a row whose slug another row has. The import code drops every error of the store, so a
  rejected write leaves the table as it was. Other failures of the database are not
  modelled, nor are the columns the import never assigns. Every call of the repository is
  recorded in \<open>calls\<close>.
\<close>

type_synonym uuid = nat

record product =
  ID :: uuid
  Slug :: string
  Name :: string
  Category :: string
  Brand :: string
  Model :: string
  GrossPrice :: rat
  MarginPct :: rat
  BasePrice :: rat
  Active :: bool

record variant =
  VariantID :: uuid
  ProductID :: uuid
  Color :: string
  Stock :: int

datatype call =
    CallMarkAllInactive
  | CallGetInactiveSlugs
  | CallFindBySlug string
  | CallSave product
  | CallListVariants uuid
  | CallSaveVariant variant

record store =
  products :: "product list"
  variants :: "variant list"
  uuids :: nat
  calls :: "call list"

definition uuidNew :: "store \<Rightarrow> uuid \<times> store" where
  "uuidNew st = (Suc (uuids st), st\<lparr>uuids := Suc (uuids st)\<rparr>)"

definition logCall :: "call \<Rightarrow> store \<Rightarrow> store" where
  "logCall c st = st\<lparr>calls := calls st @ [c]\<rparr>"

definition repoMarkAllInactive :: "store \<Rightarrow> store" where
  "repoMarkAllInactive st =
     logCall CallMarkAllInactive (st\<lparr>products := map (\<lambda>p. p\<lparr>Active := False\<rparr>) (products st)\<rparr>)"

definition repoGetInactiveSlugs :: "store \<Rightarrow> string list \<times> store" where
  "repoGetInactiveSlugs st =
     (map Slug (filter (\<lambda>p. \<not> Active p) (products st)), logCall CallGetInactiveSlugs st)"

definition repoFindBySlug :: "store \<Rightarrow> string \<Rightarrow> product option \<times> store" where
  "repoFindBySlug st slug =
     (find (\<lambda>p. Slug p = slug) (products st), logCall (CallFindBySlug slug) st)"

definition repoSave :: "store \<Rightarrow> product \<Rightarrow> store" where
  "repoSave st p =
     logCall (CallSave p)
       (if list_ex (\<lambda>q. Slug q = Slug p \<and> ID q \<noteq> ID p) (products st) then st
        else if list_ex (\<lambda>q. ID q = ID p) (products st)
        then st\<lparr>products := map (\<lambda>q. if ID q = ID p then p else q) (products st)\<rparr>
        else st\<lparr>products := products st @ [p]\<rparr>)"

definition repoListVariants :: "store \<Rightarrow> uuid \<Rightarrow> variant list \<times> store" where
  "repoListVariants st pid =
     (filter (\<lambda>v. ProductID v = pid) (variants st), logCall (CallListVariants pid) st)"

definition repoSaveVariant :: "store \<Rightarrow> variant \<Rightarrow> store" where
  "repoSaveVariant st0 v0 =
     (let (v, st) = (if VariantID v0 = 0
                     then (let (u, st') = uuidNew st0 in (v0\<lparr>VariantID := u\<rparr>, st'))
                     else (v0, st0))
      in logCall (CallSaveVariant v)
           (if list_ex (\<lambda>w. VariantID w = VariantID v) (variants st)
            then st\<lparr>variants := map (\<lambda>w. if VariantID w = VariantID v then v else w) (variants st)\<rparr>
            else st\<lparr>variants := variants st @ [v]\<rparr>))"

text \<open>The use cases of \<^verbatim>\<open>ProductUC\<close>, which the import calls.\<close>

definition ucGetBySlug :: "store \<Rightarrow> string \<Rightarrow> product option \<times> store" where
  \<comment> \<open>an empty slug is an error, and the caller then holds \<^verbatim>\<open>nil\<close>\<close>
  "ucGetBySlug st slug = (if slug = [] then (None, st) else repoFindBySlug st slug)"

definition ucCreate :: "store \<Rightarrow> product \<Rightarrow> product \<times> store" where
  \<comment> \<open>returns the product as the call leaves it behind the pointer\<close>
  "ucCreate st0 p0 =
     (let (p, st) = (if ID p0 = 0
                     then (let (u, st') = uuidNew st0 in (p0\<lparr>ID := u\<rparr>, st'))
                     else (p0, st0));
          p = p\<lparr>Slug := toLower (replaceAll (Name p) '' '' ''-'')\<rparr>
      in (p, repoSave st p))"

definition ucCreateVariant :: "store \<Rightarrow> variant \<Rightarrow> store" where
  "ucCreateVariant st0 v0 =
     (let (v, st) = (if VariantID v0 = 0
                     then (let (u, st') = uuidNew st0 in (v0\<lparr>VariantID := u\<rparr>, st'))
                     else (v0, st0))
      in repoSaveVariant st v)"

definition ucUpdateVariant :: "store \<Rightarrow> variant \<Rightarrow> store" where
  \<comment> \<open>a variant without an id is an error: nothing is written\<close>
  "ucUpdateVariant st v = (if VariantID v = 0 then st else repoSaveVariant st v)"

definition ucListVariants :: "store \<Rightarrow> uuid \<Rightarrow> variant list \<times> store" where
  "ucListVariants st pid = (if pid = 0 then ([], st) else repoListVariants st pid)"

section \<open>The import pass\<close>

record importReport =
  CreatedProducts :: nat
  UpdatedProducts :: nat
  CreatedVariants :: nat
  UpdatedVariants :: nat
  UnmatchedPrices :: nat
  DeprecatedProducts :: nat
  UnmatchedItems :: "string \<rightharpoonup> nat"
  UnmatchedReasons :: "string \<rightharpoonup> string"
  CreatedProductSlugs :: "string list"
  UpdatedProductSlugs :: "string list"
  DeprecatedSlugs :: "string list"
  CreatedVariantKeys :: "string list"
  UpdatedVariantKeys :: "string list"

record server =
  catalog :: store
  lastImport :: "importReport option"

text \<open>
  What the import is given: the price map with the orders in which \<^verbatim>\<open>range\<close> visits it
  (\<open>order2 n\<close> and \<open>order3 n\<close> for the two range statements of the matcher at the \<open>n\<close>-th row of the
  workbook, \<open>orderOnly\<close> for the loop over the entries of the price list), the text of the
  price list, the exchange rate and the margin.
\<close>

record importArgs =
  priceUSD :: priceMap
  order2 :: "nat \<Rightarrow> string list"
  order3 :: "nat \<Rightarrow> string list"
  orderOnly :: "string list"
  pricesText :: string
  fxRate :: rat
  defaultMargin :: rat

text \<open>The local variables of \<^verbatim>\<open>importFromXLSXCombined\<close> that it updates row by row.\<close>

record importState =
  db :: store
  category :: string
  rowNo :: nat
  createdP :: nat
  updatedP :: nat
  createdV :: nat
  updatedV :: nat
  unmatched :: nat
  rep :: importReport
  activatedSlugs :: "string list"
  processedVariants :: "(uuid \<times> string list) list"

datatype panic = IndexOutOfRange

definition emptyReport :: importReport where
  "emptyReport =
     \<lparr>CreatedProducts = 0, UpdatedProducts = 0, CreatedVariants = 0, UpdatedVariants = 0,
      UnmatchedPrices = 0, DeprecatedProducts = 0, UnmatchedItems = Map.empty,
      UnmatchedReasons = Map.empty, CreatedProductSlugs = [], UpdatedProductSlugs = [],
      DeprecatedSlugs = [], CreatedVariantKeys = [], UpdatedVariantKeys = []\<rparr>"

definition stockCell :: "string list \<Rightarrow> string" where
  \<comment> \<open>column D, or column E when D is empty\<close>
  "stockCell row =
     (let stockStr = (if 3 < length row then trimSpace (row ! 3) else []) in
      if stockStr = [] \<and> 4 < length row then trimSpace (row ! 4) else stockStr)"

definition markProcessed ::
  "uuid \<Rightarrow> string \<Rightarrow> (uuid \<times> string list) list \<Rightarrow> (uuid \<times> string list) list" where
  \<comment> \<open>\<^verbatim>\<open>processedVariants[id][color] = true\<close>\<close>
  "markProcessed pid c pv =
     (case map_of pv pid of
        None \<Rightarrow> pv @ [(pid, [c])]
      | Some cs \<Rightarrow> map (\<lambda>(k, cs'). if k = pid then (k, cs' @ [c]) else (k, cs')) pv)"

definition findVariant :: "variant list \<Rightarrow> string \<Rightarrow> variant option" where
  \<comment> \<open>the first variant of the list with the colour, compared without case nor outer space\<close>
  "findVariant vs color =
     find (\<lambda>v. equalFold (trimSpace (Color v)) (trimSpace color)) vs"

definition recordUnmatched :: "importArgs \<Rightarrow> string \<Rightarrow> importState \<Rightarrow> importState" where
  "recordUnmatched a baseKey s =
     (let r = rep s;
          n = (case UnmatchedItems r baseKey of None \<Rightarrow> 0 | Some c \<Rightarrow> c);
          reason = detectUnmatchReason baseKey (pricesText a)
      in s\<lparr>unmatched := Suc (unmatched s),
            rep := r\<lparr>UnmatchedItems := (UnmatchedItems r)(baseKey \<mapsto> Suc n),
                     UnmatchedReasons :=
                       (case UnmatchedReasons r baseKey of
                          None \<Rightarrow> (UnmatchedReasons r)(baseKey \<mapsto> reason)
                        | Some _ \<Rightarrow> UnmatchedReasons r)\<rparr>\<rparr>)"

definition upsertProduct ::
  "importArgs \<Rightarrow> string \<Rightarrow> string \<Rightarrow> usd \<Rightarrow> importState \<Rightarrow> product \<times> importState" where
  \<comment> \<open>create the product of the row, or update its prices and set it active\<close>
  "upsertProduct a baseKey cat usd s =
     (let gross = usd * fxRate a;
          margin = defaultMargin a;
          price = gross * (1 + margin / 100);
          (brand, model) = inferBrandModel baseKey;
          (found, st1) = ucGetBySlug (db s) (slugify baseKey)
      in case found of
           None \<Rightarrow>
             let (p, st2) = ucCreate st1
                   \<lparr>ID = 0, Slug = [], Name = baseKey, Category = cat, Brand = brand,
                    Model = model, GrossPrice = gross, MarginPct = margin, BasePrice = price,
                    Active = True\<rparr>
             in (p, s\<lparr>db := st2, createdP := Suc (createdP s),
                      rep := (if Slug p \<noteq> []
                              then (rep s)\<lparr>CreatedProductSlugs := CreatedProductSlugs (rep s) @ [Slug p]\<rparr>
                              else rep s),
                      activatedSlugs := (if Slug p \<noteq> [] then activatedSlugs s @ [Slug p]
                                         else activatedSlugs s)\<rparr>)
         | Some q \<Rightarrow>
             let (p, st2) = ucCreate st1
                   (q\<lparr>GrossPrice := gross, MarginPct := margin, BasePrice := price,
                      Active := True\<rparr>)
             in (p, s\<lparr>db := st2, updatedP := Suc (updatedP s),
                      rep := (if Slug p \<noteq> []
                              then (rep s)\<lparr>UpdatedProductSlugs := UpdatedProductSlugs (rep s) @ [Slug p]\<rparr>
                              else rep s),
                      activatedSlugs := (if Slug p \<noteq> [] then activatedSlugs s @ [Slug p]
                                         else activatedSlugs s)\<rparr>))"

definition upsertVariant ::
  "product \<Rightarrow> string \<Rightarrow> string \<Rightarrow> importState \<Rightarrow> importState" where
  \<comment> \<open>the variant of the row: found by colour among the variants of the product, then
      created with the stock of the row or updated\<close>
  "upsertVariant p color stockStr s0 =
     (let stock = mapStock stockStr;
          s = s0\<lparr>processedVariants :=
                   markProcessed (ID p) (toLower (trimSpace color)) (processedVariants s0)\<rparr>;
          (vs, st1) = ucListVariants (db s) (ID p)
      in case findVariant vs color of
           None \<Rightarrow>
             s\<lparr>db := ucCreateVariant st1
                       \<lparr>VariantID = 0, ProductID = ID p, Color = color, Stock = stock\<rparr>,
               createdV := Suc (createdV s),
               rep := (if Slug p \<noteq> []
                       then (rep s)\<lparr>CreatedVariantKeys :=
                                      CreatedVariantKeys (rep s) @ [Slug p @ '':'' @ trimSpace color]\<rparr>
                       else rep s)\<rparr>
         | Some existing \<Rightarrow>
             s\<lparr>db := ucUpdateVariant st1
                       (if trimSpace stockStr \<noteq> [] \<and> 0 \<le> stock
                        then existing\<lparr>Stock := stock\<rparr> else existing),
               updatedV := Suc (updatedV s),
               rep := (if Slug p \<noteq> []
                       then (rep s)\<lparr>UpdatedVariantKeys :=
                                      UpdatedVariantKeys (rep s) @ [Slug p @ '':'' @ trimSpace color]\<rparr>
                       else rep s)\<rparr>)"

definition processRow :: "importArgs \<Rightarrow> importState \<Rightarrow> string list \<Rightarrow> panic + importState" where
  \<comment> \<open>the body of the loop over the rows of a sheet; \<^verbatim>\<open>row[2]\<close> is read without a test of
      the length of the row\<close>
  "processRow a s0 row =
     (let s = s0\<lparr>rowNo := Suc (rowNo s0)\<rparr> in
      if row = [] then Inr s
      else
        let name = (if 1 < length row then trimSpace (row ! 1) else []);
            color = (if 2 < length row then trimSpace (row ! 2) else []);
            stockStr = stockCell row
        in if isSectionTitle name then Inr (s\<lparr>category := toLower (trimSpace name)\<rparr>)
           else if name = [] then Inr s
           else if length row \<le> 2 then Inl IndexOutOfRange
           else if equalFold (trimSpace (row ! 2)) ''Color'' then Inr s
           else
             let baseKey = normalizeBaseKey (removeColorFromName name);
                 color = (if color = [] then inferColorFromName name else color);
                 usd = rowPrice (priceUSD a) (order2 a (rowNo s0)) (order3 a (rowNo s0)) baseKey
             in if usd \<le> 0 then Inr (recordUnmatched a baseKey s)
                else
                  let (p, s1) = upsertProduct a baseKey (category s) usd s
                  in Inr (upsertVariant p color stockStr s1))"

fun processRows ::
  "importArgs \<Rightarrow> importState \<Rightarrow> string list list \<Rightarrow> panic option \<times> importState" where
  \<comment> \<open>a panic ends the loop; what the rows before it wrote to the store stays written\<close>
  "processRows a s [] = (None, s)"
| "processRows a s (row # rows) =
     (case processRow a s row of
        Inl e \<Rightarrow> (Some e, s)
      | Inr s' \<Rightarrow> processRows a s' rows)"

fun processSheets ::
  "importArgs \<Rightarrow> importState \<Rightarrow> string list list list \<Rightarrow> panic option \<times> importState" where
  "processSheets a s [] = (None, s)"
| "processSheets a s (rows # sheets) =
     (case processRows a (s\<lparr>category := []\<rparr>) rows of
        (Some e, s') \<Rightarrow> (Some e, s')
      | (None, s') \<Rightarrow> processSheets a s' sheets)"

fun zeroUnprocessed :: "string list \<Rightarrow> store \<Rightarrow> variant list \<Rightarrow> store" where
  \<comment> \<open>the inner loop of the sweep, over the variants of one product\<close>
  "zeroUnprocessed processedColors st [] = st"
| "zeroUnprocessed processedColors st (v # vs) =
     (if toLower (trimSpace (Color v)) \<notin> set processedColors
      then zeroUnprocessed processedColors (ucUpdateVariant st (v\<lparr>Stock := 0\<rparr>)) vs
      else zeroUnprocessed processedColors st vs)"

fun stockZeroSweep :: "(uuid \<times> string list) list \<Rightarrow> store \<Rightarrow> store" where
  \<comment> \<open>step 1.5: stock 0 for the variants that the rows of this import did not name; the
      list gives the order in which \<^verbatim>\<open>range\<close> visits \<^verbatim>\<open>processedVariants\<close>\<close>
  "stockZeroSweep [] st = st"
| "stockZeroSweep ((productID, processedColors) # pv) st =
     (let (allVariants, st1) = ucListVariants st productID
      in stockZeroSweep pv (zeroUnprocessed processedColors st1 allVariants))"

type_synonym workbook = "string list list list"

definition initState :: "store \<Rightarrow> importState" where
  "initState st =
     \<lparr>db = st, category = [], rowNo = 0, createdP = 0, updatedP = 0, createdV = 0,
      updatedV = 0, unmatched = 0, rep = emptyReport, activatedSlugs = [],
      processedVariants = []\<rparr>"

definition importFromXLSXCombined ::
  "server \<Rightarrow> workbook option \<Rightarrow> importArgs
     \<Rightarrow> (panic + nat \<times> nat \<times> nat \<times> nat \<times> nat) \<times> server" where
  \<comment> \<open>\<open>wb\<close> is what \<^verbatim>\<open>excelize.OpenReader\<close> makes of the bytes: \<open>None\<close> for an error, else
      the rows of every sheet (a sheet that cannot be read has no rows)\<close>
  "importFromXLSXCombined srv wb a =
     (case wb of
        None \<Rightarrow> (Inr (0, 0, 0, 0, 0), srv)
      | Some sheets \<Rightarrow>
          (case processSheets a (initState (repoMarkAllInactive (catalog srv))) sheets of
             (Some e, s) \<Rightarrow> (Inl e, srv\<lparr>catalog := db s\<rparr>)
           | (None, s) \<Rightarrow>
               let st1 = stockZeroSweep (processedVariants s) (db s);
                   (inactiveSlugs, st2) = repoGetInactiveSlugs st1;
                   r = (rep s)\<lparr>DeprecatedSlugs := inactiveSlugs,
                               CreatedProducts := createdP s, UpdatedProducts := updatedP s,
                               CreatedVariants := createdV s, UpdatedVariants := updatedV s,
                               UnmatchedPrices := unmatched s,
                               DeprecatedProducts := length inactiveSlugs\<rparr>
               in (Inr (createdP s, updatedP s, createdV s, updatedV s, unmatched s),
                   srv\<lparr>catalog := st2, lastImport := Some r\<rparr>)))"

subsection \<open>The entries of the price list that the workbook does not have\<close>

definition excelKeys :: "workbook option \<Rightarrow> string list" where
  \<comment> \<open>\<^verbatim>\<open>excelProducts\<close>: the base keys of all rows of the workbook that carry a name\<close>
  "excelKeys wb =
     (case wb of
        None \<Rightarrow> []
      | Some sheets \<Rightarrow>
          concat (map (\<lambda>rows.
            concat (map (\<lambda>row.
              if 1 < length row \<and> trimSpace (row ! 1) \<noteq> [] \<and> \<not> isSectionTitle (trimSpace (row ! 1))
              then [normalizeBaseKey (removeColorFromName (trimSpace (row ! 1)))]
              else []) rows)) sheets))"

fun sectionOf :: "string \<Rightarrow> string \<Rightarrow> string list \<Rightarrow> string" where
  \<comment> \<open>the section title above the first line of the price list that contains the name\<close>
  "sectionOf baseLower currentSection [] = []"
| "sectionOf baseLower currentSection (line # lines) =
     (let lineTrim = trimSpace line in
      if lineTrim = [] then sectionOf baseLower currentSection lines
      else if isSectionTitle lineTrim then sectionOf baseLower (toLower lineTrim) lines
      else if contains (toLower lineTrim) baseLower then currentSection
      else sectionOf baseLower currentSection lines)"

definition categoryByName :: "string \<Rightarrow> string" where
  \<comment> \<open>the fallback by key words; 0xC3 0xB3 is the letter o with an acute accent\<close>
  "categoryByName baseLower =
     (if contains baseLower ''macbook'' \<or> contains baseLower ''notebook'' \<or> contains baseLower ''nb ''
      then ''notebooks''
      else if contains baseLower ''ipad'' \<or> contains baseLower ''tablet'' then ''tablets''
      else if contains baseLower ''watch'' \<and> \<not> contains baseLower ''iphone''
      then ''pencil para ipad usb-c''
      else if contains baseLower ''airpods'' \<or> contains baseLower ''airtag''
              \<or> contains baseLower ''pencil''
      then ''pencil para ipad usb-c''
      else if contains baseLower ''jbl''
      then (if contains baseLower ''auri'' then ''audio-auris'' else ''audio-parlantes'')
      else if contains baseLower ''ps5'' \<or> contains baseLower ''xbox''
              \<or> contains baseLower ''nintendo'' \<or> contains baseLower ''quest''
      then ''consolas/gaming''
      else if contains baseLower ''amazfit'' \<or> contains baseLower ''garmin''
              \<or> contains baseLower ''smart band'' \<or> contains baseLower ''galaxy fit''
              \<or> contains baseLower ''poco watch'' \<or> contains baseLower ''x-view''
      then ''smartwatches''
      else if contains baseLower ''echo'' \<or> contains baseLower ''kindle''
              \<or> contains baseLower ''gopro'' \<or> contains baseLower ''insta360''
      then ''electr'' @ [CHR 0xC3, CHR 0xB3] @ ''nica liviana''
      else [])"

record onlyState =
  odb :: store
  ocreatedP :: nat
  oupdatedP :: nat
  ocreatedV :: nat

definition processPriceEntry ::
  "importArgs \<Rightarrow> string list \<Rightarrow> onlyState \<Rightarrow> string \<Rightarrow> onlyState" where
  \<comment> \<open>the body of the loop of \<^verbatim>\<open>importFromPricesTextOnly\<close> at one key of the price map\<close>
  "processPriceEntry a excelProducts s baseKey =
     (case priceUSD a baseKey of
        None \<Rightarrow> s
      | Some usd \<Rightarrow>
          if baseKey \<in> set excelProducts then s
          else if usd \<le> 0 then s
          else
            let gross = usd * fxRate a;
                margin = defaultMargin a;
                price = gross * (1 + margin / 100);
                (brand, model) = inferBrandModel baseKey;
                baseLower = toLower baseKey;
                cat = sectionOf baseLower [] (splitOn (CHR 0x0A) (pricesText a));
                cat = (if cat = [] then categoryByName baseLower else cat);
                (found, st1) = ucGetBySlug (odb s) (slugify baseKey);
                (p, st2) =
                  (case found of
                     None \<Rightarrow>
                       ucCreate st1
                         \<lparr>ID = 0, Slug = [], Name = baseKey, Category = cat, Brand = brand,
                          Model = model, GrossPrice = gross, MarginPct = margin,
                          BasePrice = price, Active = True\<rparr>
                   | Some q \<Rightarrow>
                       ucCreate st1
                         (q\<lparr>GrossPrice := gross, MarginPct := margin, BasePrice := price,
                            Active := True,
                            Category := (if Category q = [] \<and> cat \<noteq> [] then cat else Category q)\<rparr>));
                (vs, st3) = ucListVariants st2 (ID p);
                st4 = (if vs = []
                       then ucCreateVariant st3
                              \<lparr>VariantID = 0, ProductID = ID p, Color = [], Stock = 10\<rparr>
                       else st3)
            in \<lparr>odb = st4,
                ocreatedP = (if found = None then Suc (ocreatedP s) else ocreatedP s),
                oupdatedP = (if found = None then oupdatedP s else Suc (oupdatedP s)),
                ocreatedV = (if vs = [] then Suc (ocreatedV s) else ocreatedV s)\<rparr>)"

definition importFromPricesTextOnly ::
  "server \<Rightarrow> importArgs \<Rightarrow> workbook option \<Rightarrow> (nat \<times> nat \<times> nat \<times> nat) \<times> server" where
  "importFromPricesTextOnly srv a wb =
     (let s = foldl (processPriceEntry a (excelKeys wb))
                \<lparr>odb = catalog srv, ocreatedP = 0, oupdatedP = 0, ocreatedV = 0\<rparr>
                (orderOnly a)
      in ((ocreatedP s, oupdatedP s, ocreatedV s, 0), srv\<lparr>catalog := odb s\<rparr>))"

subsection \<open>The handler, without the language model\<close>

record response =
  created_products :: nat
  updated_products :: nat
  created_variants :: nat
  updated_variants :: nat
  unmatched_count :: nat
  deprecated_slugs :: "string list"

definition deterministicImport ::
  "(string \<Rightarrow> usd) \<Rightarrow> server \<Rightarrow> workbook option \<Rightarrow> importArgs \<Rightarrow> (panic + response) \<times> server" where
  \<comment> \<open>the branch \<^verbatim>\<open>else\<close> of \<^verbatim>\<open>handleAdminImportCSV\<close>, after the request has been accepted,
      up to the response; \<open>pricesText a0\<close> is the form value \<^verbatim>\<open>prices_text\<close>, and the
      field \<open>priceUSD\<close> of the arguments is computed here\<close>
  "deterministicImport pf srv wb a0 =
     (let text = trimSpace (pricesText a0);
          a = a0\<lparr>pricesText := text, priceUSD := parseUSDPrices pf text\<rparr> in
      case importFromXLSXCombined srv wb a of
        (Inl e, srv1) \<Rightarrow> (Inl e, srv1)
      | (Inr (cp1, up1, cv1, uv1, un), srv1) \<Rightarrow>
          let ((cp, up, cv, uv), srv2) = importFromPricesTextOnly srv1 a wb
          in (Inr \<lparr>created_products = cp1 + cp, updated_products = up1 + up,
                   created_variants = cv1 + cv, updated_variants = uv1 + uv,
                   unmatched_count = un,
                   deprecated_slugs =
                     (case lastImport srv2 of None \<Rightarrow> [] | Some r \<Rightarrow> DeprecatedSlugs r)\<rparr>,
              srv2))"

section \<open>Notions used to state the properties\<close>

text \<open>
  The model of the string functions is the one of Go on ASCII text: there a character is a
  byte, white space is the ASCII white space and the letters with two cases are A to Z.
  The statements about white space and case are made for ASCII text.
\<close>

definition ascii :: "string \<Rightarrow> bool" where
  "ascii s = list_all (\<lambda>c. of_char c < (128 :: nat)) s"

subsection \<open>Occurrences of a name in the price text\<close>







definition positiveEntries :: "priceMap \<Rightarrow> bool" where
  "positiveEntries m = (\<forall>k v. m k = Some v \<longrightarrow> k \<noteq> [] \<and> 0 < v)"

subsection \<open>A catalog, a workbook and a price list to run the import on\<close>

definition macbook :: product where
  "macbook =
     \<lparr>ID = 1, Slug = ''macbook-air-m4'', Name = ''Macbook Air M4'', Category = ''notebooks'',
      Brand = ''Macbook'', Model = ''Air M4'', GrossPrice = 100, MarginPct = 20,
      BasePrice = 120, Active = True\<rparr>"

definition shopStore :: store where
  "shopStore =
     \<lparr>products = [macbook],
      variants = [\<lparr>VariantID = 2, ProductID = 1, Color = [], Stock = 10\<rparr>],
      uuids = 2, calls = []\<rparr>"

definition shopServer :: server where
  "shopServer = \<lparr>catalog = shopStore, lastImport = None\<rparr>"

definition shopBook :: workbook where
  \<comment> \<open>one sheet with a section title and no product\<close>
  "shopBook = [[[[], ''MOTO'']]]"

definition shopArgs :: importArgs where
  "shopArgs =
     \<lparr>priceUSD = Map.empty, order2 = (\<lambda>n. []), order3 = (\<lambda>n. []),
      orderOnly = [''Macbook Air M4''],
      pricesText = ''Macbook Air M4 $999'',
      fxRate = 1485, defaultMargin = 20\<rparr>"

subsection \<open>Rows of the workbook and rows of the tables\<close>

definition rowName :: "string list \<Rightarrow> string" where
  \<comment> \<open>column B\<close>
  "rowName row = trimSpace (row ! 1)"

definition rowKey :: "string list \<Rightarrow> string" where
  "rowKey row = normalizeBaseKey (removeColorFromName (rowName row))"

definition rowColor :: "string list \<Rightarrow> string" where
  \<comment> \<open>column C, or the colour found in the name when column C is empty\<close>
  "rowColor row =
     (if trimSpace (row ! 2) = [] then inferColorFromName (rowName row) else trimSpace (row ! 2))"




subsection \<open>A product with two colours, and a row of the workbook for one of them\<close>





subsection \<open>The calls of the store and the entries of the price list\<close>

definition marked :: "store \<Rightarrow> bool" where
  \<comment> \<open>\<^verbatim>\<open>MarkAllInactive\<close> has been called\<close>
  "marked st = (CallMarkAllInactive \<in> set (calls st))"


subsection \<open>A row with a name and nothing after it\<close>




subsection \<open>The rows with a price, and what they touch\<close>









subsection \<open>ASCII text in the workbook, the store and the price list\<close>


definition asciiStore :: "store \<Rightarrow> bool" where
  "asciiStore st =
     (list_all (\<lambda>p. ascii (Name p) \<and> ascii (Slug p)) (products st)
      \<and> list_all (\<lambda>v. ascii (Color v)) (variants st))"

definition asciiArgs :: "importArgs \<Rightarrow> bool" where
  \<comment> \<open>the text of the price list, and with it the keys of the price map\<close>
  "asciiArgs a =
     (ascii (pricesText a) \<and> list_all ascii (orderOnly a)
      \<and> (\<forall>n. list_all ascii (order2 a n) \<and> list_all ascii (order3 a n)))"

subsection \<open>Two products in the catalog, and rows for one of them\<close>




section \<open>Properties of the string functions\<close>

lemma dropWhile_all_iff: "(\<forall>x\<in>set (dropWhile P xs). P x) = (\<forall>x\<in>set xs. P x)"
  by (induction xs) auto

lemma trimSpace_Nil_iff: "(trimSpace s = []) = (\<forall>c\<in>set s. isSpace c)"
  by (simp add: trimSpace_def dropWhile_eq_Nil_conv dropWhile_all_iff)

lemma splitOn_not_Nil: "splitOn sep s \<noteq> []"
  by (induction s) (auto split: list.splits)

lemma set_splitOn: "l \<in> set (splitOn sep s) \<Longrightarrow> set l \<subseteq> set s"
proof (induction s arbitrary: l)
  case Nil
  then show ?case by simp
next
  case (Cons c cs)
  obtain w ws where w: "splitOn sep cs = w # ws"
    using splitOn_not_Nil[of sep cs] by (cases "splitOn sep cs") auto
  have "set w \<subseteq> set cs" "\<And>l. l \<in> set ws \<Longrightarrow> set l \<subseteq> set cs"
    using Cons.IH w by auto
  then show ?case
    using Cons.prems w by (auto split: if_splits)
qed



section \<open>The colour-stripping helper\<close>

text \<open>
  C5. \<^verbatim>\<open>removeColorFromName\<close> tests the last word before it tests the last two words, and
  "oscuro" is a colour of its list: of the two-word phrase "Azul Oscuro" it removes the
  last word only. It returns "Moto G35" for "Moto G35 Negro", and "iPhone 17 Azul", not
  "iPhone 17", for "iPhone 17 Azul Oscuro".
\<close>

theorem removeColorFromName_last_word_first:
  "removeColorFromName ''Moto G35 Negro'' = ''Moto G35''
   \<and> removeColorFromName ''iPhone 17 Azul Oscuro'' = ''iPhone 17 Azul''
   \<and> removeColorFromName ''iPhone 17 Azul Oscuro'' \<noteq> ''iPhone 17''"
  by code_simp

section \<open>The price-list parser\<close>

lemma parseLine_skipped: "skippedLine (trimSpace line) \<Longrightarrow> parseLine pf res line = res"
  by (simp add: parseLine_def)

lemma foldl_parseLine_filter:
  "foldl (parseLine pf) res (filter (\<lambda>l. \<not> skippedLine (trimSpace l)) ls)
     = foldl (parseLine pf) res ls"
  by (induction ls arbitrary: res) (simp_all add: parseLine_skipped)

lemma blank_text_lines:
  assumes "trimSpace ptext = []"
  shows "filter (\<lambda>l. \<not> skippedLine (trimSpace l)) (splitOn sep ptext) = []"
proof -
  have "\<forall>l\<in>set (splitOn sep ptext). trimSpace l = []"
    using assms set_splitOn[of _ sep ptext] by (auto simp: trimSpace_Nil_iff)
  then show ?thesis by (auto simp: filter_empty_conv skippedLine_def)
qed

lemma parseUSDPrices_sin_stock_line:
  "parseUSDPrices pf ''iPhone 17 256 GB   Sin Stock'' = Map.empty"
proof -
  have sk: "skippedLine (trimSpace ''iPhone 17 256 GB   Sin Stock'')" by code_simp
  have h2: "splitOn (CHR 0x0A) ''iPhone 17 256 GB   Sin Stock''
              = [''iPhone 17 256 GB   Sin Stock'']"
    by code_simp
  have "foldl (parseLine pf) Map.empty (splitOn (CHR 0x0A) ''iPhone 17 256 GB   Sin Stock'')
          = Map.empty"
    unfolding h2 using parseLine_skipped[OF sk] by simp
  then show ?thesis unfolding parseUSDPrices_def by simp
qed

text \<open>
  C6. \<^verbatim>\<open>parseUSDPrices\<close> has no failing path: it is a fold of \<open>parseLine\<close> over the lines,
  whatever \<^verbatim>\<open>ParseFloat\<close> returns. For a text that is empty or white space it returns the
  empty map. A line that is blank or contains "sin stock" or "sin precio", in any case of
  the letters, leaves the map as it is, so the result is the one of the other lines alone.
  The line "iPhone 17 256 GB   Sin Stock" gives the empty map.
\<close>

theorem parseUSDPrices_skips_lines:
  "(trimSpace ptext = [] \<longrightarrow> parseUSDPrices pf ptext = Map.empty)
   \<and> (skippedLine (trimSpace line) \<longrightarrow> parseLine pf res line = res)
   \<and> parseUSDPrices pf ptext =
       foldl (parseLine pf) Map.empty
         (filter (\<lambda>l. \<not> skippedLine (trimSpace l)) (splitOn (CHR 0x0A) ptext))
   \<and> parseUSDPrices pf ''iPhone 17 256 GB   Sin Stock'' = Map.empty"
proof (intro conjI impI)
  show "parseUSDPrices pf ptext =
       foldl (parseLine pf) Map.empty
         (filter (\<lambda>l. \<not> skippedLine (trimSpace l)) (splitOn (CHR 0x0A) ptext))"
  proof (cases "trimSpace ptext = []")
    case True
    then show ?thesis by (simp add: parseUSDPrices_def blank_text_lines)
  next
    case False
    then show ?thesis by (simp add: parseUSDPrices_def foldl_parseLine_filter)
  qed
next
  show "parseUSDPrices pf ''iPhone 17 256 GB   Sin Stock'' = Map.empty"
    by (rule parseUSDPrices_sin_stock_line)
qed (simp_all add: parseUSDPrices_def parseLine_skipped)

theorem parseUSDPrices_skips_lines_witness:
  "trimSpace [CHR '' '', CHR 0x0A, CHR 0x09] = []
   \<and> parseUSDPrices parseFloatDec [CHR '' '', CHR 0x0A, CHR 0x09] = Map.empty
   \<and> skippedLine (trimSpace '' Galaxy S25 - SIN PRECIO '')
   \<and> parseLine parseFloatDec [''a'' \<mapsto> 1] '' Galaxy S25 - SIN PRECIO '' = [''a'' \<mapsto> 1]"
proof -
  have a: "trimSpace [CHR '' '', CHR 0x0A, CHR 0x09] = []" by code_simp
  have b: "skippedLine (trimSpace '' Galaxy S25 - SIN PRECIO '')" by code_simp
  show ?thesis
    using a b
      parseUSDPrices_skips_lines[of "[CHR '' '', CHR 0x0A, CHR 0x09]" parseFloatDec
        "'' Galaxy S25 - SIN PRECIO ''" "[''a'' \<mapsto> 1]"]
    by blast
qed

lemma parseLine_positive: "positiveEntries res \<Longrightarrow> positiveEntries (parseLine pf res line)"
  unfolding positiveEntries_def parseLine_def Let_def
  by (auto split: option.splits)

lemma foldl_parseLine_positive:
  "positiveEntries res \<Longrightarrow> positiveEntries (foldl (parseLine pf) res ls)"
  by (induction ls arbitrary: res) (simp_all add: parseLine_positive)

lemma parseUSDPrices_positive: "positiveEntries (parseUSDPrices pf ptext)"
proof -
  have "positiveEntries Map.empty" by (simp add: positiveEntries_def)
  then show ?thesis
    by (simp add: parseUSDPrices_def foldl_parseLine_positive)
qed

section \<open>The tiered matcher\<close>

lemma rangeFirst_Some:
  "rangeFirst m P ks = Some v \<Longrightarrow> \<exists>k\<in>set ks. m k = Some v \<and> P k"
  by (induction ks) (auto split: option.splits if_splits)

lemma rangeFirst_None:
  "(rangeFirst m P ks = None) = (\<forall>k\<in>set ks. m k \<noteq> None \<longrightarrow> \<not> P k)"
  by (induction ks) (auto split: option.splits)

text \<open>
  C7. For every price map, every order of visit and every key: when \<^verbatim>\<open>matchUSDPrice\<close>
  returns a price other than 0 although the key is not in the map and no key of the map has
  the comparison form of the key, the price is the one of a key of the map that passed the
  guard of the third tier: two at least of its first three words are among the first three
  words of the query, and both signatures are longer than 8 bytes. When the key is not in
  the map, no key has its comparison form and no key passes the tests of the third tier,
  \<^verbatim>\<open>matchUSDPrice\<close> returns 0.
\<close>

theorem matchUSDPrice_partial_guard:
  "(matchUSDPrice m ks2 ks3 key \<noteq> 0 \<and> m key = None
      \<and> (\<forall>k\<in>set ks2. m k \<noteq> None \<longrightarrow> normalize_cmp k \<noteq> normalize_cmp key)
    \<longrightarrow> (\<exists>k\<in>set ks3. m k = Some (matchUSDPrice m ks2 ks3 key)
           \<and> 2 \<le> overlap (Fields (normalize_cmp key)) (Fields (normalize_cmp k))
           \<and> 8 < length (signature (Fields (normalize_cmp key)))
           \<and> 8 < length (signature (Fields (normalize_cmp k)))))
   \<and> (m key = None
      \<and> (\<forall>k\<in>set ks2. m k \<noteq> None \<longrightarrow> normalize_cmp k \<noteq> normalize_cmp key)
      \<and> (\<forall>k\<in>set ks3. m k \<noteq> None \<longrightarrow> \<not> partialHit (Fields (normalize_cmp key)) k)
    \<longrightarrow> matchUSDPrice m ks2 ks3 key = 0)"
proof (intro conjI impI)
  assume a: "matchUSDPrice m ks2 ks3 key \<noteq> 0 \<and> m key = None
      \<and> (\<forall>k\<in>set ks2. m k \<noteq> None \<longrightarrow> normalize_cmp k \<noteq> normalize_cmp key)"
  then have n2: "normalizedTier m ks2 key = None"
    by (simp add: normalizedTier_def sameForm_def rangeFirst_None)
  with a obtain v where v: "partialTier m ks3 key = Some v" "matchUSDPrice m ks2 ks3 key = v"
    by (auto simp: matchUSDPrice_def exactTier_def split: option.splits)
  then have "rangeFirst m (partialHit (Fields (normalize_cmp key))) ks3 = Some v"
    by (auto simp: partialTier_def Let_def split: if_splits)
  from rangeFirst_Some[OF this] v(2)
  show "\<exists>k\<in>set ks3. m k = Some (matchUSDPrice m ks2 ks3 key)
           \<and> 2 \<le> overlap (Fields (normalize_cmp key)) (Fields (normalize_cmp k))
           \<and> 8 < length (signature (Fields (normalize_cmp key)))
           \<and> 8 < length (signature (Fields (normalize_cmp k)))"
    by (auto simp: partialHit_def partialGuard_def Let_def)
next
  assume a: "m key = None
      \<and> (\<forall>k\<in>set ks2. m k \<noteq> None \<longrightarrow> normalize_cmp k \<noteq> normalize_cmp key)
      \<and> (\<forall>k\<in>set ks3. m k \<noteq> None \<longrightarrow> \<not> partialHit (Fields (normalize_cmp key)) k)"
  then have "normalizedTier m ks2 key = None"
    by (simp add: normalizedTier_def sameForm_def rangeFirst_None)
  moreover from a have "partialTier m ks3 key = None"
    by (simp add: partialTier_def Let_def rangeFirst_None)
  ultimately show "matchUSDPrice m ks2 ks3 key = 0"
    using a by (simp add: matchUSDPrice_def exactTier_def)
qed

section \<open>The reasons for a row without a price\<close>




lemma length_toLower [simp]: "length (toLower s) = length s"
  by (simp add: toLower_def)














theorem matchUSDPrice_partial_guard_witness:
  "matchUSDPrice [''Moto G55 8/256 GB 5G DS'' \<mapsto> 255] [''Moto G55 8/256 GB 5G DS'']
       [''Moto G55 8/256 GB 5G DS''] ''Moto G55 8/256'' = 255
   \<and> 2 \<le> overlap (Fields (normalize_cmp ''Moto G55 8/256''))
              (Fields (normalize_cmp ''Moto G55 8/256 GB 5G DS''))
   \<and> 8 < length (signature (Fields (normalize_cmp ''Moto G55 8/256'')))
   \<and> 8 < length (signature (Fields (normalize_cmp ''Moto G55 8/256 GB 5G DS'')))
   \<and> matchUSDPrice [''Moto G55 8/256 GB 5G DS'' \<mapsto> 255] [''Moto G55 8/256 GB 5G DS'']
       [''Moto G55 8/256 GB 5G DS''] ''Nokia 3310'' = 0"
proof -
  let ?k = "''Moto G55 8/256 GB 5G DS''"
  let ?m = "[?k \<mapsto> (255::rat)]"
  have r: "matchUSDPrice ?m [?k] [?k] ''Moto G55 8/256'' = 255" by code_simp
  have a1: "?m ''Moto G55 8/256'' = None" by code_simp
  have a2: "normalize_cmp ?k \<noteq> normalize_cmp ''Moto G55 8/256''" by code_simp
  have b1: "?m ''Nokia 3310'' = None" by code_simp
  have b2: "normalize_cmp ?k \<noteq> normalize_cmp ''Nokia 3310''" by code_simp
  have b3: "\<not> partialHit (Fields (normalize_cmp ''Nokia 3310'')) ?k" by code_simp
  from matchUSDPrice_partial_guard[of ?m "[?k]" "[?k]" "''Moto G55 8/256''"] r a1 a2
  have g: "2 \<le> overlap (Fields (normalize_cmp ''Moto G55 8/256'')) (Fields (normalize_cmp ?k))
   \<and> 8 < length (signature (Fields (normalize_cmp ''Moto G55 8/256'')))
   \<and> 8 < length (signature (Fields (normalize_cmp ?k)))"
    by simp
  from matchUSDPrice_partial_guard[of ?m "[?k]" "[?k]" "''Nokia 3310''"] b1 b2 b3
  have z: "matchUSDPrice ?m [?k] [?k] ''Nokia 3310'' = 0" by simp
  from r g z show ?thesis by blast
qed

section \<open>The price map and the test for a row without a price\<close>

lemma rangeFirst_positive:
  "positiveEntries m \<Longrightarrow> rangeFirst m P ks = Some v \<Longrightarrow> 0 < v"
  by (drule rangeFirst_Some) (auto simp: positiveEntries_def)

lemma tier_values_positive:
  assumes "positiveEntries m"
  shows "normalizedTier m ks key = Some v \<Longrightarrow> 0 < v"
    and "partialTier m ks key = Some v \<Longrightarrow> 0 < v"
  using rangeFirst_positive[OF assms]
  by (auto simp: normalizedTier_def partialTier_def Let_def split: if_splits)

lemma rowPrice_unmatched_iff:
  assumes "positiveEntries m"
  shows "(rowPrice m ks2 ks3 k \<le> 0) =
           (exactTier m k = None \<and> normalizedTier m ks2 k = None \<and> partialTier m ks3 k = None)"
proof (cases "m k")
  case (Some v)
  with assms have "0 < v" by (auto simp: positiveEntries_def)
  with Some show ?thesis
    by (simp add: rowPrice_def lookupPrice_def exactTier_def)
next
  case None
  show ?thesis
  proof (cases "normalizedTier m ks2 k")
    case (Some v)
    with tier_values_positive(1)[OF assms] have "0 < v" by blast
    with None Some show ?thesis
      by (simp add: rowPrice_def lookupPrice_def exactTier_def matchUSDPrice_def)
  next
    case n2: None
    show ?thesis
    proof (cases "partialTier m ks3 k")
      case (Some v)
      with tier_values_positive(2)[OF assms] have "0 < v" by blast
      with None n2 Some show ?thesis
        by (simp add: rowPrice_def lookupPrice_def exactTier_def matchUSDPrice_def)
    next
      case n3: None
      with None n2 show ?thesis
        by (simp add: rowPrice_def lookupPrice_def exactTier_def matchUSDPrice_def)
    qed
  qed
qed

text \<open>
  C10. Every entry of the map that \<^verbatim>\<open>parseUSDPrices\<close> returns has a key that is not empty
  and an amount above 0. So the lookup \<^verbatim>\<open>priceUSD[baseKey]\<close> gives 0, or an amount that is
  not above 0, exactly for a key that has no entry; and the price of a row, which the
  import tests with \<^verbatim>\<open>usd <= 0\<close>, is not above 0 exactly when none of the three tiers
  finds an entry.
\<close>

theorem parseUSDPrices_entries_positive:
  "(parseUSDPrices pf ptext k = Some v \<longrightarrow> k \<noteq> [] \<and> 0 < v)
   \<and> (lookupPrice (parseUSDPrices pf ptext) k = 0) = (parseUSDPrices pf ptext k = None)
   \<and> (lookupPrice (parseUSDPrices pf ptext) k \<le> 0) = (parseUSDPrices pf ptext k = None)
   \<and> (rowPrice (parseUSDPrices pf ptext) ks2 ks3 k \<le> 0) =
       (exactTier (parseUSDPrices pf ptext) k = None
        \<and> normalizedTier (parseUSDPrices pf ptext) ks2 k = None
        \<and> partialTier (parseUSDPrices pf ptext) ks3 k = None)"
proof -
  have pos: "positiveEntries (parseUSDPrices pf ptext)" by (rule parseUSDPrices_positive)
  then have "\<And>w. parseUSDPrices pf ptext k = Some w \<Longrightarrow> k \<noteq> [] \<and> 0 < w"
    by (auto simp: positiveEntries_def)
  then have "parseUSDPrices pf ptext k = Some v \<longrightarrow> k \<noteq> [] \<and> 0 < v"
    and "(lookupPrice (parseUSDPrices pf ptext) k = 0) = (parseUSDPrices pf ptext k = None)"
    and "(lookupPrice (parseUSDPrices pf ptext) k \<le> 0) = (parseUSDPrices pf ptext k = None)"
    by (auto simp: lookupPrice_def split: option.splits)
  with rowPrice_unmatched_iff[OF pos] show ?thesis by blast
qed

theorem parseUSDPrices_entries_positive_witness:
  "parseUSDPrices parseFloatDec ''Moto G35 - $1,255.50'' ''Moto G35'' = Some (2511 / 2)
   \<and> ''Moto G35'' \<noteq> [] \<and> (0::rat) < 2511 / 2
   \<and> parseUSDPrices parseFloatDec ''Moto G35 - $1,255.50'' ''Moto G36'' = None
   \<and> lookupPrice (parseUSDPrices parseFloatDec ''Moto G35 - $1,255.50'') ''Moto G36'' = 0"
proof -
  have a: "parseUSDPrices parseFloatDec ''Moto G35 - $1,255.50'' ''Moto G35'' = Some (2511 / 2)"
    by code_simp
  have b: "parseUSDPrices parseFloatDec ''Moto G35 - $1,255.50'' ''Moto G36'' = None"
    by code_simp
  show ?thesis
    using a b
      parseUSDPrices_entries_positive[of parseFloatDec "''Moto G35 - $1,255.50''"
        "''Moto G35''" "2511 / 2"]
      parseUSDPrices_entries_positive[of parseFloatDec "''Moto G35 - $1,255.50''"
        "''Moto G36''"]
    by blast
qed

section \<open>The normalizer and the single quote as an inch mark\<close>

text \<open>
  C4, on the code: \<^verbatim>\<open>normalizeBaseKey\<close> cuts the decimals of an inch size written with a
  double quote, and only afterwards turns a single quote into a double quote. So the size
  15.6 written with a single quote keeps its decimals in the first pass, where the same
  size written with a double quote loses them, and a second pass changes the result of the
  first: the function is not idempotent on "Notebook 15.6'".
\<close>

theorem normalizeBaseKey_not_idempotent:
  "normalizeBaseKey (''Notebook 15.6'' @ [CHR 0x27]) = ''Notebook 15.6'' @ [CHR 0x22]
   \<and> normalizeBaseKey (''Notebook 15.6'' @ [CHR 0x22]) = ''Notebook 15'' @ [CHR 0x22]
   \<and> normalizeBaseKey (normalizeBaseKey (''Notebook 15.6'' @ [CHR 0x27]))
         \<noteq> normalizeBaseKey (''Notebook 15.6'' @ [CHR 0x27])"
  by code_simp

section \<open>The import pass\<close>

lemma marked_logCall [simp]: "marked (logCall c st) = (c = CallMarkAllInactive \<or> marked st)"
  by (auto simp: marked_def logCall_def)

lemma marked_updates [simp]:
  "marked (st\<lparr>products := ps\<rparr>) = marked st"
  "marked (st\<lparr>variants := vs\<rparr>) = marked st"
  "marked (st\<lparr>uuids := n\<rparr>) = marked st"
  by (simp_all add: marked_def)

lemma marked_ucGetBySlug [simp]: "marked (snd (ucGetBySlug st slug)) = marked st"
  by (simp add: ucGetBySlug_def repoFindBySlug_def)

lemma marked_repoSave [simp]: "marked (repoSave st p) = marked st"
  by (simp add: repoSave_def)

lemma marked_ucCreate [simp]: "marked (snd (ucCreate st p)) = marked st"
  by (simp add: ucCreate_def uuidNew_def Let_def split_beta)

lemma marked_ucListVariants [simp]: "marked (snd (ucListVariants st pid)) = marked st"
  by (simp add: ucListVariants_def repoListVariants_def)

lemma marked_repoSaveVariant [simp]: "marked (repoSaveVariant st v) = marked st"
  by (simp add: repoSaveVariant_def uuidNew_def Let_def split_beta)

lemma marked_ucCreateVariant [simp]: "marked (ucCreateVariant st v) = marked st"
  by (simp add: ucCreateVariant_def uuidNew_def Let_def split_beta)





text \<open>
  C1, on the code: the handler computes the list of deprecated slugs at the end of
  \<^verbatim>\<open>importFromXLSXCombined\<close>, before \<^verbatim>\<open>importFromPricesTextOnly\<close> runs. A product that is in
  the catalog and in the price list, with no row in the workbook, is set inactive, listed
  as deprecated, and then set active again: after the pass it is active and its slug is in
  \<^verbatim>\<open>deprecated_slugs\<close>.
\<close>

theorem deprecated_slugs_before_price_list_entries:
  "(case deterministicImport parseFloatDec shopServer (Some shopBook) shopArgs of
      (Inr r, srv) \<Rightarrow>
        ''macbook-air-m4'' \<in> set (deprecated_slugs r)
        \<and> list_ex (\<lambda>p. Slug p = ''macbook-air-m4'' \<and> Active p) (products (catalog srv))
        \<and> updated_products r = 1
    | (Inl e, srv) \<Rightarrow> False)"
  by code_simp

section \<open>The store and the rows of the workbook\<close>

lemma logCall_simps [simp]:
  "variants (logCall c st) = variants st"
  "products (logCall c st) = products st"
  "uuids (logCall c st) = uuids st"
  by (simp_all add: logCall_def)

lemma ucListVariants_fst:
  "fst (ucListVariants st pid) = (if pid = 0 then [] else filter (\<lambda>v. ProductID v = pid) (variants st))"
  by (simp add: ucListVariants_def repoListVariants_def)

lemma ucListVariants_snd [simp]:
  "variants (snd (ucListVariants st pid)) = variants st"
  "products (snd (ucListVariants st pid)) = products st"
  "uuids (snd (ucListVariants st pid)) = uuids st"
  by (simp_all add: ucListVariants_def repoListVariants_def)

lemma ucUpdateVariant_variants:
  assumes "VariantID v \<noteq> 0" "list_ex (\<lambda>w. VariantID w = VariantID v) (variants st)"
  shows "variants (ucUpdateVariant st v) =
           map (\<lambda>w. if VariantID w = VariantID v then v else w) (variants st)"
    and "uuids (ucUpdateVariant st v) = uuids st"
    and "products (ucUpdateVariant st v) = products st"
  using assms by (simp_all add: ucUpdateVariant_def repoSaveVariant_def)











lemma ucGetBySlug_snd [simp]:
  "variants (snd (ucGetBySlug st slug)) = variants st"
  "uuids (snd (ucGetBySlug st slug)) = uuids st"
  by (simp_all add: ucGetBySlug_def repoFindBySlug_def)

lemma repoSave_frame [simp]:
  "variants (repoSave st p) = variants st"
  "uuids (repoSave st p) = uuids st"
  by (simp_all add: repoSave_def)







lemma findVariant_in: "findVariant vs c = Some v \<Longrightarrow> v \<in> set vs"
  by (auto simp: findVariant_def find_Some_iff)



lemma recordUnmatched_frame [simp]:
  "db (recordUnmatched a k s) = db s"
  "processedVariants (recordUnmatched a k s) = processedVariants s"
  by (simp_all add: recordUnmatched_def Let_def)






lemma isSpace_toLowerChar [simp]: "isSpace (toLowerChar c) = isSpace c"
proof (cases "map_of (zip ''ABCDEFGHIJKLMNOPQRSTUVWXYZ'' ''abcdefghijklmnopqrstuvwxyz'') c")
  case None
  then show ?thesis by (simp add: toLowerChar_def)
next
  case (Some d)
  then have "(c, d) \<in> set (zip ''ABCDEFGHIJKLMNOPQRSTUVWXYZ'' ''abcdefghijklmnopqrstuvwxyz'')"
    by (rule map_of_SomeD)
  then have "\<not> isSpace c \<and> \<not> isSpace d"
    by (auto simp: isSpace_def)
  with Some show ?thesis by (simp add: toLowerChar_def)
qed

lemma toLower_dropWhile: "toLower (dropWhile isSpace s) = dropWhile isSpace (toLower s)"
  by (induction s) (auto simp: toLower_def)

lemma toLower_rev: "toLower (rev s) = rev (toLower s)"
  by (simp add: toLower_def rev_map)

lemma toLower_trimSpace: "trimSpace (toLower s) = toLower (trimSpace s)"
  by (simp add: trimSpace_def toLower_dropWhile[symmetric] toLower_rev[symmetric])

lemma trimSpace_ends:
  assumes "trimSpace s \<noteq> []"
  shows "\<not> isSpace (hd (trimSpace s))" "\<not> isSpace (last (trimSpace s))"
proof -
  let ?u = "dropWhile isSpace s"
  let ?r = "dropWhile isSpace (rev ?u)"
  have r: "?r \<noteq> []" using assms by (simp add: trimSpace_def)
  have u: "?u \<noteq> []"
  proof
    assume a: "?u = []"
    have "?r = []" unfolding a by simp
    with r show False by simp
  qed
  have "\<not> isSpace (hd ?r)" using r by (rule hd_dropWhile)
  then show "\<not> isSpace (last (trimSpace s))"
    using r by (simp add: trimSpace_def last_rev)
  have "last ?r = last (rev ?u)"
    using r by (metis last_appendR takeWhile_dropWhile_id)
  also have "\<dots> = hd ?u" using u by (simp add: last_rev)
  finally have "hd (trimSpace s) = hd ?u" using r by (simp add: trimSpace_def hd_rev)
  then show "\<not> isSpace (hd (trimSpace s))" using u hd_dropWhile[of isSpace s] by simp
qed

lemma trimSpace_id:
  assumes "s = [] \<or> (\<not> isSpace (hd s) \<and> \<not> isSpace (last s))"
  shows "trimSpace s = s"
proof (cases "s = []")
  case True
  then show ?thesis by (simp add: trimSpace_def)
next
  case False
  with assms have h: "\<not> isSpace (hd s)" "\<not> isSpace (last s)" by auto
  from False h(1) have a: "dropWhile isSpace s = s" by (cases s) auto
  from False h(2) have "dropWhile isSpace (rev s) = rev s"
    by (cases "rev s") (auto simp: last_rev[symmetric] hd_rev)
  with a show ?thesis by (simp add: trimSpace_def)
qed

lemma trimSpace_idem [simp]: "trimSpace (trimSpace s) = trimSpace s"
  using trimSpace_ends[of s] by (intro trimSpace_id) auto

lemma stockCell_trimmed [simp]: "trimSpace (stockCell row) = stockCell row"
  by (simp add: stockCell_def Let_def trimSpace_def[of "[]"])

lemma mapStock_nonneg: "0 \<le> mapStock s"
  by (simp add: mapStock_def Let_def)

lemma mapStock_trimmed:
  "trimSpace c = c \<Longrightarrow> c \<noteq> [] \<Longrightarrow>
     mapStock c = (if contains (toLower c) ''sin'' then 0
                   else if contains (toLower c) ''bajo'' then 2 else 10)"
  by (simp add: mapStock_def Let_def toLower_trimSpace) (simp add: toLower_def)

lemma find_map_replace:
  assumes "\<exists>w\<in>set xs. P w" "P y"
  shows "find P (map (\<lambda>w. if P w then y else w) xs) = Some y"
  using assms by (induction xs) auto

lemma upsertVariant_existing:
  assumes "findVariant (fst (ucListVariants (db s) (ID p))) color = Some v"
    and "VariantID v \<noteq> 0"
  shows "find (\<lambda>w. VariantID w = VariantID v) (variants (db (upsertVariant p color stockStr s)))
           = Some (if trimSpace stockStr \<noteq> [] then v\<lparr>Stock := mapStock stockStr\<rparr> else v)"
proof -
  let ?st1 = "snd (ucListVariants (db s) (ID p))"
  let ?v' = "if trimSpace stockStr \<noteq> [] \<and> 0 \<le> mapStock stockStr
             then v\<lparr>Stock := mapStock stockStr\<rparr> else v"
  have vin: "v \<in> set (variants ?st1)"
    using findVariant_in[OF assms(1)] by (auto simp: ucListVariants_fst split: if_splits)
  then have ex: "list_ex (\<lambda>w. VariantID w = VariantID ?v') (variants ?st1)"
    by (auto simp: list_ex_iff)
  have id: "VariantID ?v' \<noteq> 0" "VariantID ?v' = VariantID v" using assms(2) by auto
  have "variants (ucUpdateVariant ?st1 ?v')
          = map (\<lambda>w. if VariantID w = VariantID v then ?v' else w) (variants ?st1)"
    using ucUpdateVariant_variants(1)[OF id(1) ex] id(2) by simp
  moreover have "find (\<lambda>w. VariantID w = VariantID v)
          (map (\<lambda>w. if VariantID w = VariantID v then ?v' else w) (variants ?st1)) = Some ?v'"
    using vin id(2) by (intro find_map_replace) auto
  ultimately show ?thesis
    using assms(1) mapStock_nonneg[of stockStr]
    by (simp add: upsertVariant_def Let_def split_beta)
qed

section \<open>The stock of a row\<close>

text \<open>
  Rows with three cells at least, in ASCII. Take such a row with a name that is not a
  section title, not the header row "Color", whose key has a price, and let the colour of
  the row match, without case nor outer space, a variant \<open>v\<close> that the product of the row
  has in the store (\<open>v\<close> has an id, as every stored variant has). Then the row is
  processed without a panic, and afterwards the stored variant with the id of \<open>v\<close> is
  \<open>v\<close> with this stock: the stock of \<open>v\<close> when the stock cell (column D, else E) is empty
  after trimming; else 0 when the cell in lower case contains "sin"; else 2 when it
  contains "bajo"; else 10.
\<close>

lemma row_stock_of_existing_variant:
  assumes "2 < length row"
    and "list_all ascii row" and "asciiStore (db s0)" and "asciiArgs a"
    and "rowName row \<noteq> []"
    and "\<not> isSectionTitle (rowName row)"
    and "\<not> equalFold (trimSpace (row ! 2)) ''Color''"
    and "usd = rowPrice (priceUSD a) (order2 a (rowNo s0)) (order3 a (rowNo s0)) (rowKey row)"
    and "0 < usd"
    and "upsertProduct a (rowKey row) (category s0) usd (s0\<lparr>rowNo := Suc (rowNo s0)\<rparr>) = (p, s1)"
    and "findVariant (fst (ucListVariants (db s1) (ID p))) (rowColor row) = Some v"
    and "VariantID v \<noteq> 0"
  shows "\<exists>s'. processRow a s0 row = Inr s'
           \<and> find (\<lambda>w. VariantID w = VariantID v) (variants (db s'))
               = Some (v\<lparr>Stock :=
                         (if stockCell row = [] then Stock v
                          else if contains (toLower (stockCell row)) ''sin'' then 0
                          else if contains (toLower (stockCell row)) ''bajo'' then 2
                          else 10)\<rparr>)"
proof -
  have ne: "row \<noteq> []" "\<not> length row \<le> 2" using assms(1) by auto
  have pr: "processRow a s0 row = Inr (upsertVariant p (rowColor row) (stockCell row) s1)"
    using assms(1) assms(5-10) ne
    by (simp add: processRow_def Let_def rowName_def rowKey_def rowColor_def)
  have "find (\<lambda>w. VariantID w = VariantID v)
          (variants (db (upsertVariant p (rowColor row) (stockCell row) s1)))
        = Some (if stockCell row \<noteq> [] then v\<lparr>Stock := mapStock (stockCell row)\<rparr> else v)"
    using upsertVariant_existing[OF assms(11,12), of "stockCell row"] by simp
  also have "\<dots> = Some (v\<lparr>Stock :=
                         (if stockCell row = [] then Stock v
                          else if contains (toLower (stockCell row)) ''sin'' then 0
                          else if contains (toLower (stockCell row)) ''bajo'' then 2
                          else 10)\<rparr>)"
    using mapStock_trimmed[of "stockCell row"] by simp
  finally show ?thesis using pr by simp
qed


section \<open>The sweep after the rows\<close>














end
